theory Spec2Isabelle
  imports Complex_Main
begin

section \<open>Strings and tokens\<close>

text \<open>
  Strings are lists of characters. The JavaScript string operations used by the command
  interpreter are modelled on ASCII text: white space is the six ASCII white-space
  characters, letters are lowered in the range A to Z only, and a digit is one of 0 to 9
  (which is exactly what the regular-expression class for digits accepts).
\<close>

definition isDigit :: "char \<Rightarrow> bool" where
  "isDigit c = (c \<in> set ''0123456789'')"


definition lowerChar :: "char \<Rightarrow> char" where
  "lowerChar c =
     (if c \<in> set ''ABCDEFGHIJKLMNOPQRSTUVWXYZ'' then char_of (of_char c + (32::nat)) else c)"

definition toLowerCase :: "string \<Rightarrow> string" where
  "toLowerCase s = map lowerChar s"

section \<open>The date and time parser of the when command\<close>

text \<open>
  The first regular expression of \<^verbatim>\<open>parseDateTime\<close>: four digits, a dash, two digits,
  a dash, two digits, anchored at both ends.
\<close>

fun dateToken :: "string \<Rightarrow> bool" where
  "dateToken [y1, y2, y3, y4, s1, m1, m2, s2, d1, d2] =
     (isDigit y1 \<and> isDigit y2 \<and> isDigit y3 \<and> isDigit y4 \<and> s1 = CHR ''-'' \<and>
      isDigit m1 \<and> isDigit m2 \<and> s2 = CHR ''-'' \<and> isDigit d1 \<and> isDigit d2)"
| "dateToken _ = False"

text \<open>
  The second one, matched ignoring case: one or two digits, a colon, two digits and an
  optional am or pm, anchored at both ends.
\<close>

fun amPmSuffix :: "string \<Rightarrow> bool" where
  "amPmSuffix [] = True"
| "amPmSuffix [a, m] = (a \<in> set ''apAP'' \<and> m \<in> set ''mM'')"
| "amPmSuffix _ = False"

fun minutesPart :: "string \<Rightarrow> bool" where
  "minutesPart (c # m1 # m2 # suffix) =
     (c = CHR '':'' \<and> isDigit m1 \<and> isDigit m2 \<and> amPmSuffix suffix)"
| "minutesPart _ = False"

fun timeToken :: "string \<Rightarrow> bool" where
  "timeToken [] = False"
| "timeToken (h1 # rest) =
     (isDigit h1 \<and>
      (minutesPart rest \<or> (case rest of [] \<Rightarrow> False | h2 # rest' \<Rightarrow> isDigit h2 \<and> minutesPart rest')))"

record date_time =
  dt_date :: "string option"
  dt_time :: "string option"

text \<open>
  The loop of \<^verbatim>\<open>parseDateTime\<close> visits every argument and assigns to \<^verbatim>\<open>date\<close> and
  \<^verbatim>\<open>time\<close> whenever the argument matches; there is no early exit.
\<close>

fun parseDateTime_loop :: "string list \<Rightarrow> date_time \<Rightarrow> date_time" where
  "parseDateTime_loop [] r = r"
| "parseDateTime_loop (a # as) r =
     parseDateTime_loop as
       \<lparr>dt_date = (if dateToken a then Some a else dt_date r),
        dt_time = (if timeToken a then Some (toLowerCase a) else dt_time r)\<rparr>"

definition parseDateTime :: "string list \<Rightarrow> date_time" where
  "parseDateTime args = parseDateTime_loop args \<lparr>dt_date = None, dt_time = None\<rparr>"


section \<open>Documents\<close>

text \<open>
  The four record kinds of the poll subsystem, their satellites, and the documents of the
  user collection. Document identifiers are natural numbers drawn from a counter of the
  store; group and user identifiers are strings. The \<^verbatim>\<open>choices\<close> field of a poll is the
  constant list join, maybe, no and is not stored in the model.
\<close>

type_synonym doc_id = nat

datatype poll_type = Movie | Place

datatype choice = Join | Maybe | No

record poll_meta =
  md_date :: "string option"
  md_time :: "string option"
  md_releaseDate :: "string option"
  md_rating :: "real option"
  md_types :: "string list option"
  md_source :: "string option"
  md_latitude :: "real option"
  md_longitude :: "real option"

definition emptyMeta :: poll_meta where
  "emptyMeta = \<lparr>md_date = None, md_time = None, md_releaseDate = None, md_rating = None,
     md_types = None, md_source = None, md_latitude = None, md_longitude = None\<rparr>"

text \<open>
  The metadata field of a stored poll is usually the JSON text of an object, but readers
  also accept a native object. \<open>BadText\<close> stands for a text that \<^verbatim>\<open>JSON.parse\<close> rejects.
\<close>

datatype stored_metadata =
  JsonText poll_meta | EmptyText | BadText | NativeObject poll_meta | NoMetadata

record poll =
  p_id :: doc_id
  p_groupId :: string
  p_creatorId :: string
  p_creatorName :: string
  p_type :: poll_type
  p_externalId :: string
  p_title :: string
  p_description :: string
  p_image :: string
  p_active :: bool
  p_metadata :: stored_metadata
  p_createdAt :: nat

record vote =
  v_id :: doc_id
  v_pollId :: doc_id
  v_userId :: string
  v_choice :: choice
  v_createdAt :: nat

record user_doc =
  u_userId :: string
  u_genres :: "string list"

text \<open>
  The errors that cross function boundaries: \<open>StorageFailure\<close> stands for an error of the
  database service or the network, \<open>NotFound\<close> for a document that does not exist,
  \<open>PermissionDenied\<close> for the error thrown when the requester is not the creator,
  \<open>LookupFailure\<close> for a failed provider request and \<open>SyntaxError\<close> for metadata that
  cannot be parsed.
\<close>

datatype error = StorageFailure | NotFound | PermissionDenied | LookupFailure | SyntaxError


subsection \<open>Search candidates\<close>

record place_result =
  pl_place_id :: string
  pl_name :: string
  pl_formatted_address :: string
  pl_rating :: "real option"
  pl_types :: "string list option"
  pl_lat :: "real option"
  pl_lon :: "real option"

record movie_result =
  mv_id :: int
  mv_title :: string
  mv_overview :: string
  mv_poster_path :: string
  mv_release_date :: string
  mv_vote_average :: real
  mv_genre_ids :: "int list option"

datatype item = PlaceItem place_result | MovieItem movie_result

text \<open>
  The interpreter only ever stores a list of places or a list of movies under a group,
  never a mixed list.
\<close>

datatype search_results = PlaceResults "place_result list" | MovieResults "movie_result list"

subsection \<open>Messages and notifications\<close>

text \<open>
  The body of a message written by the code is a template with interpolated values. The
  model keeps which template it is and the values it was given, not the rendered text.
\<close>

datatype message_text =
    PlainText string
  | NewPollCreated string
  | UsagePlanOutings
  | SearchingPlaces string string
  | NoPlacesFound string string
  | TopPlaces string string "place_result list"
  | FailedSuggestions error
  | FindingMovies
  | NoGenres
  | NoMoviesFound
  | TopMovies string "string list" "movie_result list"
  | FailedMovieSuggestions error
  | UsageSelect
  | NoSearchResults
  | ItemNotFound "string list"
  | SelectedMovie movie_result
  | SelectedPlace place_result
  | NoItemSelected
  | UsageWhen
  | PollCreated poll_type string string string string
  | FailedCreatePoll error
  | NoActivePollToSummarize
  | RsvpSummary poll poll_meta nat nat nat
  | NoActivePlanToLock
  | PlanLocked poll poll_meta nat nat
  | HelpText
  | UnknownCommand

record message =
  m_id :: doc_id
  m_groupId :: string
  m_senderId :: string
  m_senderName :: string
  m_senderAvatar :: string
  m_text :: message_text
  m_pollId :: "doc_id option"
  m_isSystemMessage :: bool
  m_createdAt :: nat

datatype notification_text = PlanConfirmed poll poll_meta "string option" nat

record notification_meta =
  nm_groupId :: string
  nm_groupName :: "string option"
  nm_pollId :: doc_id
  nm_place :: string
  nm_address :: string
  nm_date :: "string option"
  nm_time :: "string option"
  nm_attendees :: nat
  nm_type :: poll_type

record notification =
  n_id :: doc_id
  n_userId :: string
  n_text :: notification_text
  n_metadata :: "notification_meta option"
  n_read :: bool
  n_type :: string
  n_createdAt :: nat

record reaction =
  r_id :: doc_id
  r_messageId :: doc_id
  r_userId :: string
  r_emoji :: string

section \<open>The store\<close>

text \<open>
  The hosted database is outside the repository. It is modelled as document lists, each
  kept in creation order, which is also the order in which a listing without an order
  query returns them. Every call to the database may fail: \<open>faults\<close> is the schedule of
  the calls still to come, its head telling whether the next call succeeds or with which
  error it fails, and an exhausted schedule means that no further call fails. A listing
  without a limit query returns
  every matching document. Creating a document draws its identifier from \<open>nextId\<close> and
  its creation time from \<open>clock\<close>, and advances both.

  The two module-level maps of the command interpreter, \<^verbatim>\<open>selectedItems\<close> and
  \<^verbatim>\<open>searchResults\<close>, live in the same record.
\<close>

record state =
  polls :: "poll list"
  votes :: "vote list"
  messages :: "message list"
  notifications :: "notification list"
  users :: "user_doc list"
  nextId :: nat
  clock :: nat
  faults :: "error option list"
  selectedItems :: "string \<rightharpoonup> item"
  searchResults :: "string \<rightharpoonup> search_results"

text \<open>
  An asynchronous function takes the state and returns its outcome, \<open>Inl\<close> for a
  rejection, together with the state it leaves behind.
\<close>

type_synonym 'a io = "state \<Rightarrow> (error + 'a) \<times> state"

definition resolve :: "'a \<Rightarrow> 'a io" where
  "resolve x s = (Inr x, s)"

definition reject :: "error \<Rightarrow> 'a io" where
  "reject e s = (Inl e, s)"

definition andThen :: "'a io \<Rightarrow> ('a \<Rightarrow> 'b io) \<Rightarrow> 'b io" where
  "andThen m f s = (case m s of (Inl e, s1) \<Rightarrow> (Inl e, s1) | (Inr x, s1) \<Rightarrow> f x s1)"

definition tryCatch :: "'a io \<Rightarrow> (error \<Rightarrow> 'a io) \<Rightarrow> 'a io" where
  "tryCatch m h s = (case m s of (Inl e, s1) \<Rightarrow> h e s1 | (Inr x, s1) \<Rightarrow> (Inr x, s1))"

text \<open>
  \<^verbatim>\<open>Promise.all\<close> over requests that have all been issued: every request runs, and the
  outcome is the first rejection if there is one.
\<close>

fun promiseAll :: "'a io list \<Rightarrow> 'a list io" where
  "promiseAll [] s = (Inr [], s)"
| "promiseAll (m # ms) s =
     (case m s of (r, s1) \<Rightarrow>
        (case promiseAll ms s1 of (rs, s2) \<Rightarrow>
           ((case r of Inl e \<Rightarrow> Inl e
             | Inr x \<Rightarrow> (case rs of Inl e \<Rightarrow> Inl e | Inr xs \<Rightarrow> Inr (x # xs))), s2)))"


subsection \<open>Database calls\<close>

definition storageCall :: "unit io" where
  "storageCall s =
     (case faults s of
        [] \<Rightarrow> (Inr (), s)
      | f # fs \<Rightarrow> ((case f of None \<Rightarrow> Inr () | Some e \<Rightarrow> Inl e), s\<lparr>faults := fs\<rparr>))"

datatype 'd query = Equal "'d \<Rightarrow> bool" | Limit nat | OrderDesc "'d \<Rightarrow> nat" | OrderAsc "'d \<Rightarrow> nat"

fun matches :: "'d query list \<Rightarrow> 'd \<Rightarrow> bool" where
  "matches [] d = True"
| "matches (Equal P # qs) d = (P d \<and> matches qs d)"
| "matches (_ # qs) d = matches qs d"

fun ordered :: "'d query list \<Rightarrow> 'd list \<Rightarrow> 'd list" where
  "ordered [] ds = ds"
| "ordered (OrderDesc f # qs) ds = rev (sort_key f ds)"
| "ordered (OrderAsc f # qs) ds = sort_key f ds"
| "ordered (_ # qs) ds = ordered qs ds"

fun limited :: "'d query list \<Rightarrow> 'd list \<Rightarrow> 'd list" where
  "limited [] ds = ds"
| "limited (Limit n # qs) ds = take n ds"
| "limited (_ # qs) ds = limited qs ds"

definition runQueries :: "'d query list \<Rightarrow> 'd list \<Rightarrow> 'd list" where
  "runQueries qs ds = limited qs (ordered qs (filter (matches qs) ds))"

definition listDocuments :: "(state \<Rightarrow> 'd list) \<Rightarrow> 'd query list \<Rightarrow> 'd list io" where
  "listDocuments collection qs =
     andThen storageCall (\<lambda>_ s. (Inr (runQueries qs (collection s)), s))"


definition updatePollDocument :: "doc_id \<Rightarrow> (poll \<Rightarrow> poll) \<Rightarrow> unit io" where
  "updatePollDocument i f =
     andThen storageCall (\<lambda>_ s.
       if i \<in> set (map p_id (polls s))
       then (Inr (), s\<lparr>polls := map (\<lambda>p. if p_id p = i then f p else p) (polls s)\<rparr>)
       else (Inl NotFound, s))"

definition createPollDocument :: "(doc_id \<Rightarrow> nat \<Rightarrow> poll) \<Rightarrow> poll io" where
  "createPollDocument mk =
     andThen storageCall (\<lambda>_ s.
       (Inr (mk (nextId s) (clock s)),
        s\<lparr>polls := polls s @ [mk (nextId s) (clock s)],
          nextId := Suc (nextId s), clock := Suc (clock s)\<rparr>))"


definition updateVoteDocument :: "doc_id \<Rightarrow> (vote \<Rightarrow> vote) \<Rightarrow> unit io" where
  "updateVoteDocument i f =
     andThen storageCall (\<lambda>_ s.
       if i \<in> set (map v_id (votes s))
       then (Inr (), s\<lparr>votes := map (\<lambda>v. if v_id v = i then f v else v) (votes s)\<rparr>)
       else (Inl NotFound, s))"

definition createVoteDocument :: "(doc_id \<Rightarrow> nat \<Rightarrow> vote) \<Rightarrow> vote io" where
  "createVoteDocument mk =
     andThen storageCall (\<lambda>_ s.
       (Inr (mk (nextId s) (clock s)),
        s\<lparr>votes := votes s @ [mk (nextId s) (clock s)],
          nextId := Suc (nextId s), clock := Suc (clock s)\<rparr>))"




section \<open>The poll helpers\<close>

record PollData =
  pd_groupId :: string
  pd_creatorId :: string
  pd_creatorName :: string
  pd_type :: poll_type
  pd_externalId :: string
  pd_title :: string
  pd_description :: "string option"
  pd_image :: "string option"
  pd_metadata :: "poll_meta option"

definition orEmpty :: "string option \<Rightarrow> string" where
  "orEmpty x = (case x of None \<Rightarrow> [] | Some t \<Rightarrow> t)"

definition deactivate :: "poll \<Rightarrow> poll" where
  "deactivate p = p\<lparr>p_active := False\<rparr>"


text \<open>
  \<^verbatim>\<open>createPoll\<close>: list the polls of the group, deactivate the active ones, create the new
  poll as active. The handler of its \<^verbatim>\<open>try\<close> block logs and rethrows. \<open>pollFields\<close> is
  the object handed to \<^verbatim>\<open>createDocument\<close>, completed by the identifier and the creation
  time that the store assigns.
\<close>

definition pollFields :: "PollData \<Rightarrow> doc_id \<Rightarrow> nat \<Rightarrow> poll" where
  "pollFields pollData i t =
     \<lparr>p_id = i,
      p_groupId = pd_groupId pollData,
      p_creatorId = pd_creatorId pollData,
      p_creatorName = pd_creatorName pollData,
      p_type = pd_type pollData,
      p_externalId = pd_externalId pollData,
      p_title = pd_title pollData,
      p_description = orEmpty (pd_description pollData),
      p_image = orEmpty (pd_image pollData),
      p_active = True,
      p_metadata = JsonText (case pd_metadata pollData of None \<Rightarrow> emptyMeta | Some m \<Rightarrow> m),
      p_createdAt = t\<rparr>"

definition createPoll :: "PollData \<Rightarrow> poll io" where
  "createPoll pollData =
     tryCatch
       (andThen (listDocuments polls [Equal (\<lambda>p. p_groupId p = pd_groupId pollData)])
          (\<lambda>existingPolls.
        andThen (promiseAll (map (\<lambda>p. updatePollDocument (p_id p) deactivate)
                               (filter p_active existingPolls)))
          (\<lambda>_.
        createPollDocument (pollFields pollData))))
       reject"




text \<open>The three read helpers catch every error and answer with an empty result.\<close>

definition getActivePoll :: "string \<Rightarrow> poll option io" where
  "getActivePoll groupId =
     tryCatch
       (andThen (listDocuments polls
                   [Equal (\<lambda>p. p_groupId p = groupId), Equal p_active, Limit 1]) (\<lambda>docs.
          resolve (case docs of [] \<Rightarrow> None | d # _ \<Rightarrow> Some d)))
       (\<lambda>_. resolve None)"

definition getGroupPolls :: "string \<Rightarrow> poll list io" where
  "getGroupPolls groupId =
     tryCatch
       (listDocuments polls
          [Equal (\<lambda>p. p_groupId p = groupId), OrderDesc p_createdAt, Limit 100])
       (\<lambda>_. resolve [])"

definition getPollVotes :: "doc_id \<Rightarrow> vote list io" where
  "getPollVotes pollId =
     tryCatch
       (listDocuments votes [Equal (\<lambda>v. v_pollId v = pollId)])
       (\<lambda>_. resolve [])"

definition castVote :: "doc_id \<Rightarrow> string \<Rightarrow> choice \<Rightarrow> unit io" where
  "castVote pollId userId c =
     tryCatch
       (andThen (listDocuments votes
                   [Equal (\<lambda>v. v_pollId v = pollId), Equal (\<lambda>v. v_userId v = userId)])
          (\<lambda>existingVotes.
             case existingVotes of
               v # _ \<Rightarrow> updateVoteDocument (v_id v) (\<lambda>d. d\<lparr>v_choice := c\<rparr>)
             | [] \<Rightarrow>
                 andThen (createVoteDocument (\<lambda>i t.
                   \<lparr>v_id = i, v_pollId = pollId, v_userId = userId, v_choice = c,
                    v_createdAt = t\<rparr>))
                   (\<lambda>_. resolve ())))
       reject"

section \<open>The command interpreter\<close>






subsection \<open>String helpers\<close>









subsection \<open>Messages and notifications of the interpreter\<close>





subsection \<open>Lookups\<close>




subsection \<open>Commands\<close>

















section \<open>The realtime subscriptions of the chat page\<close>

record 'd realtime_response =
  events :: "string list"
  payload :: 'd

definition createEvent :: string where
  "createEvent = ''databases.*.collections.*.documents.*.create''"

definition updateEvent :: string where
  "updateEvent = ''databases.*.collections.*.documents.*.update''"

record chat =
  cs_messages :: "message list"
  cs_polls :: "poll list"
  cs_votes :: "vote list"
  cs_reactions :: "reaction list"

definition onReactionEvent :: "reaction realtime_response \<Rightarrow> chat \<Rightarrow> chat" where
  "onReactionEvent response cs =
     (if createEvent \<in> set (events response)
      then cs\<lparr>cs_reactions := cs_reactions cs @ [payload response]\<rparr>
      else cs)"

definition onMessageEvent :: "string \<Rightarrow> message realtime_response \<Rightarrow> chat \<Rightarrow> chat" where
  "onMessageEvent groupId response cs =
     (if m_groupId (payload response) = groupId then
        (if createEvent \<in> set (events response)
         then cs\<lparr>cs_messages := cs_messages cs @ [payload response]\<rparr>
         else if updateEvent \<in> set (events response)
         then cs\<lparr>cs_messages :=
                  map (\<lambda>msg. if m_id msg = m_id (payload response) then payload response else msg)
                    (cs_messages cs)\<rparr>
         else cs)
      else cs)"

definition onPollEvent :: "string \<Rightarrow> poll realtime_response \<Rightarrow> chat \<Rightarrow> chat" where
  "onPollEvent groupId response cs =
     (if p_groupId (payload response) = groupId then
        (if createEvent \<in> set (events response)
         then cs\<lparr>cs_polls := payload response # cs_polls cs\<rparr>
         else if updateEvent \<in> set (events response)
         then cs\<lparr>cs_polls :=
                  map (\<lambda>poll. if p_id poll = p_id (payload response) then payload response else poll)
                    (cs_polls cs)\<rparr>
         else cs)
      else cs)"

definition onVoteEvent :: "vote realtime_response \<Rightarrow> chat \<Rightarrow> chat" where
  "onVoteEvent response cs =
     (if createEvent \<in> set (events response)
      then cs\<lparr>cs_votes := cs_votes cs @ [payload response]\<rparr>
      else if updateEvent \<in> set (events response)
      then cs\<lparr>cs_votes :=
               map (\<lambda>vote. if v_id vote = v_id (payload response) then payload response else vote)
                 (cs_votes cs)\<rparr>
      else cs)"

text \<open>
  A change reaches the page through the subscription of its collection. The effect that
  installs the four subscriptions returns at once when the page has no group id.
\<close>

datatype change =
    MessageChange "message realtime_response"
  | PollChange "poll realtime_response"
  | VoteChange "vote realtime_response"
  | ReactionChange "reaction realtime_response"

definition deliver :: "string \<Rightarrow> change \<Rightarrow> chat \<Rightarrow> chat" where
  "deliver groupId ch cs =
     (if groupId = [] then cs
      else (case ch of
              MessageChange response \<Rightarrow> onMessageEvent groupId response cs
            | PollChange response \<Rightarrow> onPollEvent groupId response cs
            | VoteChange response \<Rightarrow> onVoteEvent response cs
            | ReactionChange response \<Rightarrow> onReactionEvent response cs))"

section \<open>Predicates used in the statements and proofs\<close>

text \<open>
  \<open>nextFails\<close> tells whether the next database call fails, \<open>nextError\<close> is the error it
  then fails with, and \<open>afterCall\<close> is the state once that call has consumed its entry of
  the schedule. \<open>activeIn\<close> lists the active polls
  of a group in listing order. \<open>singleActive\<close> is the invariant of the poll lifecycle
  manager, \<open>wellFormed\<close> says that the identifiers of the polls are distinct and were
  drawn from the counter, and \<open>lifecycle\<close> runs one of the four operations of the manager.
\<close>

definition nextFails :: "state \<Rightarrow> bool" where
  "nextFails s = (case faults s of Some e # _ \<Rightarrow> True | _ \<Rightarrow> False)"

definition nextError :: "state \<Rightarrow> error" where
  "nextError s = (case faults s of Some e # _ \<Rightarrow> e | _ \<Rightarrow> StorageFailure)"

definition afterCall :: "state \<Rightarrow> state" where
  "afterCall s = s\<lparr>faults := tl (faults s)\<rparr>"

definition deactivateOn :: "doc_id set \<Rightarrow> poll \<Rightarrow> poll" where
  "deactivateOn D p = (if p_id p \<in> D then deactivate p else p)"

definition activeIn :: "string \<Rightarrow> poll list \<Rightarrow> poll list" where
  "activeIn g ps = filter (\<lambda>p. p_groupId p = g \<and> p_active p) ps"






definition votesOf :: "doc_id \<Rightarrow> string \<Rightarrow> vote list \<Rightarrow> vote list" where
  "votesOf i u vs = filter (\<lambda>v. v_pollId v = i \<and> v_userId v = u) vs"

text \<open>
  The group a change belongs to. A message or a poll names its group; a vote belongs to
  the group of its poll and a reaction to the group of its message, found in the
  database.
\<close>

definition changeGroup :: "state \<Rightarrow> change \<Rightarrow> string option" where
  "changeGroup db ch =
     (case ch of
        MessageChange response \<Rightarrow> Some (m_groupId (payload response))
      | PollChange response \<Rightarrow> Some (p_groupId (payload response))
      | VoteChange response \<Rightarrow>
          map_option p_groupId (find (\<lambda>p. p_id p = v_pollId (payload response)) (polls db))
      | ReactionChange response \<Rightarrow>
          map_option m_groupId
            (find (\<lambda>m. m_id m = r_messageId (payload response)) (messages db)))"

definition emptyChat :: chat where
  "emptyChat = \<lparr>cs_messages = [], cs_polls = [], cs_votes = [], cs_reactions = []\<rparr>"




section \<open>Example data\<close>

definition emptyState :: state where
  "emptyState =
     \<lparr>polls = [], votes = [], messages = [], notifications = [], users = [],
      nextId = 1, clock = 1, faults = [],
      selectedItems = Map.empty, searchResults = Map.empty\<rparr>"

definition examplePoll :: "doc_id \<Rightarrow> string \<Rightarrow> string \<Rightarrow> bool \<Rightarrow> poll" where
  "examplePoll i g t a =
     \<lparr>p_id = i, p_groupId = g, p_creatorId = ''u1'', p_creatorName = ''Asha'',
      p_type = Place, p_externalId = ''osm_node_1'', p_title = t, p_description = [],
      p_image = [], p_active = a, p_metadata = JsonText emptyMeta, p_createdAt = i\<rparr>"

definition exampleDraft :: "string \<Rightarrow> PollData" where
  "exampleDraft t =
     \<lparr>pd_groupId = ''g1'', pd_creatorId = ''u1'', pd_creatorName = ''Asha'',
      pd_type = Movie, pd_externalId = ''603'', pd_title = t,
      pd_description = None, pd_image = None, pd_metadata = None\<rparr>"

definition exampleVote :: "doc_id \<Rightarrow> doc_id \<Rightarrow> string \<Rightarrow> choice \<Rightarrow> vote" where
  "exampleVote i p u c =
     \<lparr>v_id = i, v_pollId = p, v_userId = u, v_choice = c, v_createdAt = i\<rparr>"

text \<open>A group with an inactive and an active poll, and a second group.\<close>

definition groupState :: state where
  "groupState =
     emptyState\<lparr>polls := [examplePoll 1 ''g1'' ''Cafe A'' False,
                          examplePoll 2 ''g1'' ''Cafe B'' True,
                          examplePoll 3 ''g2'' ''Cafe C'' True],
                nextId := 4, clock := 4\<rparr>"






section \<open>Properties of the date and time parser\<close>

lemma parseDateTime_loop_append:
  "parseDateTime_loop (xs @ [a]) r =
     \<lparr>dt_date = (if dateToken a then Some a else dt_date (parseDateTime_loop xs r)),
      dt_time = (if timeToken a then Some (toLowerCase a) else dt_time (parseDateTime_loop xs r))\<rparr>"
  by (induction xs arbitrary: r) simp_all

lemma parseDateTime_loop_last:
  "parseDateTime_loop args r =
     \<lparr>dt_date = (case find dateToken (rev args) of Some a \<Rightarrow> Some a | None \<Rightarrow> dt_date r),
      dt_time = (case find timeToken (rev args) of Some a \<Rightarrow> Some (toLowerCase a)
                 | None \<Rightarrow> dt_time r)\<rparr>"
proof (induction args arbitrary: r rule: rev_induct)
  case Nil
  show ?case by simp
next
  case (snoc a as)
  show ?case
    unfolding parseDateTime_loop_append
    by (simp add: snoc.IH)
qed

text \<open>
  Claim C7, as amended. The parser finds a date token and a time token wherever they stand
  in the argument list, and for each pattern the token used is the last one that matches:
  the result is determined by searching the reversed argument list.
\<close>

theorem parseDateTime_last_match_wins:
  "parseDateTime args =
     \<lparr>dt_date = find dateToken (rev args),
      dt_time = map_option toLowerCase (find timeToken (rev args))\<rparr>"
  unfolding parseDateTime_def parseDateTime_loop_last
  by (simp split: option.split)

text \<open>
  Claim C7 as stated fails: with two date tokens the one used is not the first.
\<close>

theorem parseDateTime_first_match_counterexample:
  "find dateToken [''2025-10-30'', ''2025-11-01'', ''19:30''] = Some ''2025-10-30'' \<and>
   dt_date (parseDateTime [''2025-10-30'', ''2025-11-01'', ''19:30'']) = Some ''2025-11-01'' \<and>
   dt_time (parseDateTime [''2025-10-30'', ''2025-11-01'', ''19:30'']) = Some ''19:30''"
  by (simp add: parseDateTime_def isDigit_def toLowerCase_def lowerChar_def)

section \<open>Database calls, evaluated\<close>

lemma storageCall_eq:
  "storageCall s = ((if nextFails s then Inl (nextError s) else Inr ()), afterCall s)"
  by (simp add: storageCall_def nextFails_def nextError_def afterCall_def
      split: list.splits option.splits)

lemma afterCall_simps [simp]:
  "polls (afterCall s) = polls s" "votes (afterCall s) = votes s"
  "messages (afterCall s) = messages s" "notifications (afterCall s) = notifications s"
  "users (afterCall s) = users s" "nextId (afterCall s) = nextId s"
  "clock (afterCall s) = clock s" "faults (afterCall s) = tl (faults s)"
  "selectedItems (afterCall s) = selectedItems s" "searchResults (afterCall s) = searchResults s"
  by (simp_all add: afterCall_def)

lemma matches_fun:
  "matches [] = (\<lambda>d. True)"
  "matches (Equal P # qs) = (\<lambda>d. P d \<and> matches qs d)"
  "matches (Limit n # qs) = matches qs"
  "matches (OrderDesc f # qs) = matches qs"
  "matches (OrderAsc f # qs) = matches qs"
  by (rule ext, simp)+

lemma listDocuments_eq:
  "listDocuments c qs s =
     (if nextFails s then (Inl (nextError s), afterCall s)
      else (Inr (runQueries qs (c (afterCall s))), afterCall s))"
  by (simp add: listDocuments_def andThen_def storageCall_eq)

lemma updatePollDocument_eq:
  "updatePollDocument i f s =
     (if nextFails s then (Inl (nextError s), afterCall s)
      else if i \<in> p_id ` set (polls s)
      then (Inr (), (afterCall s)\<lparr>polls := map (\<lambda>p. if p_id p = i then f p else p) (polls s)\<rparr>)
      else (Inl NotFound, afterCall s))"
  by (simp add: updatePollDocument_def andThen_def storageCall_eq)

lemma deactivateOn_simps [simp]:
  "p_id (deactivateOn D p) = p_id p" "p_groupId (deactivateOn D p) = p_groupId p"
  "p_active (deactivateOn D p) = (p_active p \<and> p_id p \<notin> D)"
  "deactivateOn D (deactivateOn E p) = deactivateOn (D \<union> E) p"
  "deactivateOn {} p = p"
  by (simp_all add: deactivateOn_def deactivate_def)

lemma map_deactivateOn_empty [simp]: "map (deactivateOn {}) ps = ps"
  by (induction ps) simp_all

lemma map_deactivateOn_twice [simp]:
  "map (deactivateOn D) (map (deactivateOn E) ps) = map (deactivateOn (D \<union> E)) ps"
  by (induction ps) simp_all

lemma nextFails_faults: "nextFails s \<Longrightarrow> Some (nextError s) \<in> set (faults s)"
  by (simp add: nextFails_def nextError_def split: list.splits option.splits)

lemma deactivateAll:
  "promiseAll (map (\<lambda>p. updatePollDocument (p_id p) deactivate) ps) s = (r, s') \<Longrightarrow>
   \<exists>D fs. D \<subseteq> p_id ` set ps \<and> s' = s\<lparr>polls := map (deactivateOn D) (polls s), faults := fs\<rparr> \<and>
      set fs \<subseteq> set (faults s) \<and>
      (\<forall>x. r = Inr x \<longrightarrow> D = p_id ` set ps) \<and>
      (\<forall>e. r = Inl e \<longrightarrow> Some e \<in> set (faults s) \<or>
                 (e = NotFound \<and> \<not> p_id ` set ps \<subseteq> p_id ` set (polls s)))"
proof (induction ps arbitrary: s r s')
  case Nil
  then show ?case
    by (intro exI[of _ "{}"] exI[of _ "faults s"]) auto
next
  case (Cons p ps)
  obtain r1 s1 where m: "updatePollDocument (p_id p) deactivate s = (r1, s1)"
    by (cases "updatePollDocument (p_id p) deactivate s")
  obtain rs s2 where rest: "promiseAll (map (\<lambda>p. updatePollDocument (p_id p) deactivate) ps) s1 = (rs, s2)"
    by (cases "promiseAll (map (\<lambda>p. updatePollDocument (p_id p) deactivate) ps) s1")
  from Cons.IH[OF rest] obtain D fs where
    D: "D \<subseteq> p_id ` set ps" and s2: "s2 = s1\<lparr>polls := map (deactivateOn D) (polls s1), faults := fs\<rparr>"
    and fs: "set fs \<subseteq> set (faults s1)"
    and ok: "\<forall>x. rs = Inr x \<longrightarrow> D = p_id ` set ps"
    and bad: "\<forall>e. rs = Inl e \<longrightarrow> Some e \<in> set (faults s1) \<or>
                 (e = NotFound \<and> \<not> p_id ` set ps \<subseteq> p_id ` set (polls s1))"
    by blast
  have r: "r = (case r1 of Inl e \<Rightarrow> Inl e
             | Inr x \<Rightarrow> (case rs of Inl e \<Rightarrow> Inl e | Inr xs \<Rightarrow> Inr (x # xs)))"
    and s': "s' = s2"
    using Cons.prems m rest by simp_all
  have tl_sub: "set (tl (faults s)) \<subseteq> set (faults s)"
    by (cases "faults s") auto
  have upd: "(\<lambda>q. if p_id q = p_id p then deactivate q else q) = deactivateOn {p_id p}"
    by (auto simp: deactivateOn_def)
  consider (fail) "nextFails s" "r1 = Inl (nextError s)" "s1 = afterCall s"
    | (ok) "\<not> nextFails s" "p_id p \<in> p_id ` set (polls s)" "r1 = Inr ()"
        "s1 = (afterCall s)\<lparr>polls := map (deactivateOn {p_id p}) (polls s)\<rparr>"
    | (missing) "\<not> nextFails s" "p_id p \<notin> p_id ` set (polls s)" "r1 = Inl NotFound"
        "s1 = afterCall s"
    using m unfolding updatePollDocument_eq upd by (auto split: if_splits)
  then show ?case
  proof cases
    case fail
    show ?thesis
      apply (rule exI[of _ D], rule exI[of _ fs])
      using D s2 fs tl_sub fail r s' nextFails_faults[OF fail(1)]
      by (auto simp: afterCall_def)
  next
    case ok
    show ?thesis
      apply (rule exI[of _ "insert (p_id p) D"], rule exI[of _ fs])
      using D s2 fs tl_sub ok r s' \<open>\<forall>x. rs = Inr x \<longrightarrow> D = p_id ` set ps\<close> bad
      by (auto simp: afterCall_def image_image split: sum.splits)
  next
    case missing
    show ?thesis
      apply (rule exI[of _ D], rule exI[of _ fs])
      using D s2 fs tl_sub missing r s'
      by (auto simp: afterCall_def)
  qed
qed

lemma createPollDocument_eq:
  "createPollDocument mk s =
     (if nextFails s then (Inl (nextError s), afterCall s)
      else (Inr (mk (nextId s) (clock s)),
            (afterCall s)\<lparr>polls := polls s @ [mk (nextId s) (clock s)],
               nextId := Suc (nextId s), clock := Suc (clock s)\<rparr>))"
  by (simp add: createPollDocument_def andThen_def storageCall_eq)

lemma tl_subset: "set (tl xs) \<subseteq> set xs"
  by (cases xs) auto

lemma activeIn_ids: "p_id ` set (activeIn g ps) \<subseteq> p_id ` set ps"
  by (auto simp: activeIn_def)

lemma createPoll_result:
  assumes "createPoll d s = (r, s')"
  shows "\<exists>D fs. D \<subseteq> p_id ` set (activeIn (pd_groupId d) (polls s)) \<and> set fs \<subseteq> set (faults s) \<and>
     (\<forall>e. r = Inl e \<longrightarrow> Some e \<in> set (faults s) \<and>
                 s' = s\<lparr>polls := map (deactivateOn D) (polls s), faults := fs\<rparr>) \<and>
     (\<forall>p. r = Inr p \<longrightarrow> D = p_id ` set (activeIn (pd_groupId d) (polls s)) \<and>
                 p = pollFields d (nextId s) (clock s) \<and>
                 s' = s\<lparr>polls := map (deactivateOn D) (polls s) @ [p],
                        nextId := Suc (nextId s), clock := Suc (clock s), faults := fs\<rparr>)"
proof (cases "nextFails s")
  case True
  then have "r = Inl (nextError s)" "s' = afterCall s"
    using assms by (simp_all add: createPoll_def tryCatch_def andThen_def listDocuments_eq reject_def)
  then show ?thesis
    using nextFails_faults[OF True] tl_subset[of "faults s"]
    by (intro exI[of _ "{}"] exI[of _ "tl (faults s)"]) (simp add: afterCall_def)
next
  case False
  let ?act = "activeIn (pd_groupId d) (polls s)"
  have listed: "filter p_active (runQueries [Equal (\<lambda>p. p_groupId p = pd_groupId d)] (polls s)) = ?act"
    by (simp add: runQueries_def activeIn_def matches_fun conj_commute)
  obtain r1 s1 where batch:
    "promiseAll (map (\<lambda>p. updatePollDocument (p_id p) deactivate) ?act) (afterCall s) = (r1, s1)"
    by (cases "promiseAll (map (\<lambda>p. updatePollDocument (p_id p) deactivate) ?act) (afterCall s)")
  from deactivateAll[OF batch] obtain D fs where
    D: "D \<subseteq> p_id ` set ?act"
    and s1': "s1 = (afterCall s)\<lparr>polls := map (deactivateOn D) (polls (afterCall s)), faults := fs\<rparr>"
    and fs': "set fs \<subseteq> set (faults (afterCall s))"
    and ok': "\<forall>x. r1 = Inr x \<longrightarrow> D = p_id ` set ?act"
    and bad': "\<forall>e. r1 = Inl e \<longrightarrow> Some e \<in> set (faults (afterCall s)) \<or>
                 (e = NotFound \<and> \<not> p_id ` set ?act \<subseteq> p_id ` set (polls (afterCall s)))"
    by blast
  have s1: "s1 = (afterCall s)\<lparr>polls := map (deactivateOn D) (polls s), faults := fs\<rparr>"
    and fs: "set fs \<subseteq> set (tl (faults s))"
    and bad: "\<forall>e. r1 = Inl e \<longrightarrow> Some e \<in> set (tl (faults s))"
    using s1' fs' bad' activeIn_ids[of "pd_groupId d" "polls s"] by simp_all
  have run: "createPoll d s =
     (case r1 of Inl e \<Rightarrow> (Inl e, s1) | Inr _ \<Rightarrow> createPollDocument (pollFields d) s1)"
    using False batch
    by (simp add: createPoll_def tryCatch_def andThen_def listDocuments_eq reject_def listed
        split: sum.splits prod.splits)
  show ?thesis
  proof (cases r1)
    case (Inl e)
    with run assms have "r = Inl e" "s' = s1" by simp_all
    moreover from bad Inl
    have "Some e \<in> set (tl (faults s))" by auto
    ultimately show ?thesis
      using D s1 fs tl_subset[of "faults s"]
      by (intro exI[of _ D] exI[of _ fs]) (auto simp: afterCall_def)
  next
    case (Inr x)
    with ok' have DD: "D = p_id ` set ?act" by simp
    show ?thesis
    proof (cases "nextFails s1")
      case True
      with run Inr assms have "r = Inl (nextError s1)" "s' = afterCall s1"
        by (simp_all add: createPollDocument_eq)
      moreover have "Some (nextError s1) \<in> set (faults s)"
        using nextFails_faults[OF True] s1 fs tl_subset[of "faults s"] by auto
      ultimately show ?thesis
        using D s1 fs tl_subset[of "faults s"] tl_subset[of fs]
        by (intro exI[of _ D] exI[of _ "tl fs"]) (auto simp: afterCall_def)
    next
      case F2: False
      with run Inr assms have "r = Inr (pollFields d (nextId s1) (clock s1))"
        "s' = (afterCall s1)\<lparr>polls := polls s1 @ [pollFields d (nextId s1) (clock s1)],
               nextId := Suc (nextId s1), clock := Suc (clock s1)\<rparr>"
        by (simp_all add: createPollDocument_eq)
      then show ?thesis
        using DD s1 fs tl_subset[of "faults s"] tl_subset[of fs]
        by (intro exI[of _ D] exI[of _ "tl fs"]) (auto simp: afterCall_def)
    qed
  qed
qed




lemma faults_shrink:
  "s1 = (afterCall s)\<lparr>polls := ps, faults := fs\<rparr> \<Longrightarrow> s1 = s\<lparr>polls := ps, faults := fs\<rparr>"
  by (simp add: afterCall_def)









section \<open>The single-active-poll invariant\<close>














section \<open>Properties of the poll helpers\<close>

lemma first_of_take:
  "(case take (Suc 0) xs of [] \<Rightarrow> None | d # _ \<Rightarrow> Some d) =
   (case xs of [] \<Rightarrow> None | d # _ \<Rightarrow> Some d)"
  by (cases xs) simp_all

lemma find_activeIn:
  "find (\<lambda>p. p_groupId p = g \<and> p_active p) ps =
     (case activeIn g ps of [] \<Rightarrow> None | p # _ \<Rightarrow> Some p)"
  by (induction ps) (simp_all add: activeIn_def)

lemma getActivePoll_eq:
  "getActivePoll g s =
     (Inr (if nextFails s then None
           else (case activeIn g (polls s) of [] \<Rightarrow> None | p # _ \<Rightarrow> Some p)), afterCall s)"
  by (simp add: getActivePoll_def tryCatch_def andThen_def listDocuments_eq resolve_def
      runQueries_def matches_fun first_of_take activeIn_def)

lemma getGroupPolls_eq:
  "getGroupPolls g s =
     (Inr (if nextFails s then []
           else take 100 (rev (sort_key p_createdAt (filter (\<lambda>p. p_groupId p = g) (polls s))))),
      afterCall s)"
  by (simp add: getGroupPolls_def tryCatch_def listDocuments_eq resolve_def
      runQueries_def matches_fun)

lemma getPollVotes_eq:
  "getPollVotes i s =
     (Inr (if nextFails s then [] else filter (\<lambda>v. v_pollId v = i) (votes s)), afterCall s)"
  by (simp add: getPollVotes_def tryCatch_def listDocuments_eq resolve_def
      runQueries_def matches_fun)



text \<open>
  Claim C10. None of the three read helpers ever rejects. When the listing call fails,
  \<^verbatim>\<open>getActivePoll\<close> answers with nothing and \<^verbatim>\<open>getGroupPolls\<close> and \<^verbatim>\<open>getPollVotes\<close> with
  the empty list, which is the very answer they give on a working store that holds no
  such document.
\<close>

theorem read_helpers_swallow_failures:
  "(\<exists>x. fst (getActivePoll g s) = Inr x) \<and>
   (\<exists>x. fst (getGroupPolls g s) = Inr x) \<and>
   (\<exists>x. fst (getPollVotes i s) = Inr x) \<and>
   (nextFails s \<longrightarrow>
      fst (getActivePoll g s) = Inr None \<and>
      fst (getGroupPolls g s) = Inr [] \<and>
      fst (getPollVotes i s) = Inr [] \<and>
      fst (getActivePoll g s) = fst (getActivePoll g (s\<lparr>polls := [], faults := []\<rparr>)) \<and>
      fst (getGroupPolls g s) = fst (getGroupPolls g (s\<lparr>polls := [], faults := []\<rparr>)) \<and>
      fst (getPollVotes i s) = fst (getPollVotes i (s\<lparr>votes := [], faults := []\<rparr>)))"
  by (simp add: getActivePoll_eq getGroupPolls_eq getPollVotes_eq nextFails_def activeIn_def)

text \<open>Witness for C10: a failing store that does hold an active poll of the group.\<close>

theorem read_helpers_swallow_failures_witness:
  "nextFails (groupState\<lparr>faults := [Some PermissionDenied]\<rparr>) \<and>
   activeIn ''g1'' (polls (groupState\<lparr>faults := [Some PermissionDenied]\<rparr>)) \<noteq> [] \<and>
   fst (getActivePoll ''g1'' (groupState\<lparr>faults := [Some PermissionDenied]\<rparr>)) = Inr None \<and>
   fst (getGroupPolls ''g1'' (groupState\<lparr>faults := [Some PermissionDenied]\<rparr>)) = Inr [] \<and>
   fst (getPollVotes 2 (groupState\<lparr>faults := [Some PermissionDenied]\<rparr>)) = Inr []"
proof -
  have h: "nextFails (groupState\<lparr>faults := [Some PermissionDenied]\<rparr>)"
    by (simp add: nextFails_def)
  have a: "activeIn ''g1'' (polls (groupState\<lparr>faults := [Some PermissionDenied]\<rparr>)) \<noteq> []"
    by (simp add: groupState_def emptyState_def activeIn_def examplePoll_def)
  from read_helpers_swallow_failures[of "''g1''" "groupState\<lparr>faults := [Some PermissionDenied]\<rparr>" 2] h a
  show ?thesis by blast
qed




lemma createPoll_success:
  assumes "createPoll d s = (Inr p, s')"
  shows "p = pollFields d (nextId s) (clock s)"
    and "polls s' = map (deactivateOn (p_id ` set (activeIn (pd_groupId d) (polls s)))) (polls s) @ [p]"
    and "nextId s' = Suc (nextId s)" and "set (faults s') \<subseteq> set (faults s)"
proof -
  from createPoll_result[OF assms] obtain D fs where
    fs: "set fs \<subseteq> set (faults s)"
    and ok: "\<forall>q. Inr p = Inr q \<longrightarrow> D = p_id ` set (activeIn (pd_groupId d) (polls s)) \<and>
                 q = pollFields d (nextId s) (clock s) \<and>
                 s' = s\<lparr>polls := map (deactivateOn D) (polls s) @ [q],
                        nextId := Suc (nextId s), clock := Suc (clock s), faults := fs\<rparr>"
    by blast
  from ok have D: "D = p_id ` set (activeIn (pd_groupId d) (polls s))"
    and p: "p = pollFields d (nextId s) (clock s)"
    and s': "s' = s\<lparr>polls := map (deactivateOn D) (polls s) @ [p],
                        nextId := Suc (nextId s), clock := Suc (clock s), faults := fs\<rparr>"
    by simp_all
  show "p = pollFields d (nextId s) (clock s)" by (rule p)
  show "polls s' = map (deactivateOn (p_id ` set (activeIn (pd_groupId d) (polls s)))) (polls s) @ [p]"
    by (simp add: s' D)
  show "nextId s' = Suc (nextId s)" by (simp add: s')
  show "set (faults s') \<subseteq> set (faults s)" using fs by (simp add: s')
qed


lemma createPoll_failure:
  assumes "createPoll d s = (Inl e, s')"
  shows "Some e \<in> set (faults s)"
    and "\<exists>D fs. s' = s\<lparr>polls := map (deactivateOn D) (polls s), faults := fs\<rparr>"
proof -
  from createPoll_result[OF assms] obtain D fs where
    bad: "\<forall>x. Inl e = Inl x \<longrightarrow> Some x \<in> set (faults s) \<and>
                 s' = s\<lparr>polls := map (deactivateOn D) (polls s), faults := fs\<rparr>"
    by blast
  then have b: "Some e \<in> set (faults s) \<and>
                 s' = s\<lparr>polls := map (deactivateOn D) (polls s), faults := fs\<rparr>"
    by simp
  from b show "Some e \<in> set (faults s)" by (rule conjunct1)
  from b show "\<exists>D fs. s' = s\<lparr>polls := map (deactivateOn D) (polls s), faults := fs\<rparr>"
    by (elim conjE) (rule exI, rule exI)
qed

lemma createPoll_total:
  assumes "faults s = []"
  shows "\<exists>p s'. createPoll d s = (Inr p, s') \<and> faults s' = []"
proof -
  obtain r s' where run: "createPoll d s = (r, s')" by (cases "createPoll d s")
  show ?thesis
  proof (cases r)
    case (Inl e)
    from createPoll_failure(1)[OF run[unfolded Inl]] assms show ?thesis by simp
  next
    case (Inr p)
    from createPoll_success(4)[OF run[unfolded Inr]] assms have "faults s' = []" by simp
    with run Inr show ?thesis by blast
  qed
qed


text \<open>
  Claim C3, as amended. \<^verbatim>\<open>createPoll\<close> validates nothing: the type of a draft is movie
  or place by the type of \<^verbatim>\<open>PollData\<close>, and every title is accepted. When no database
  call fails it succeeds for every draft and inserts, as the last poll, an active poll
  with the title and type of the draft. It fails only with the error of a failed
  database call.
\<close>

theorem createPoll_no_validation:
  "(faults s = [] \<longrightarrow>
      (\<exists>p s'. createPoll d s = (Inr p, s') \<and> p_title p = pd_title d \<and> p_type p = pd_type d \<and>
         p_active p \<and> polls s' \<noteq> [] \<and> last (polls s') = p)) \<and>
   (\<forall>e s'. createPoll d s = (Inl e, s') \<longrightarrow> Some e \<in> set (faults s))"
proof (intro conjI impI allI)
  assume "faults s = []"
  from createPoll_total[OF this] obtain p s' where run: "createPoll d s = (Inr p, s')"
    by blast
  from createPoll_success(1,2)[OF run]
  have "p_title p = pd_title d \<and> p_type p = pd_type d \<and> p_active p \<and> polls s' \<noteq> [] \<and>
        last (polls s') = p"
    by (simp add: pollFields_def)
  with run show "\<exists>p s'. createPoll d s = (Inr p, s') \<and> p_title p = pd_title d \<and>
      p_type p = pd_type d \<and> p_active p \<and> polls s' \<noteq> [] \<and> last (polls s') = p"
    by blast
next
  fix e s' assume "createPoll d s = (Inl e, s')"
  then show "Some e \<in> set (faults s)"
    by (rule createPoll_failure)
qed

text \<open>Witness for C3 as amended.\<close>

theorem createPoll_no_validation_witness:
  "faults emptyState = [] \<and>
   (\<exists>p s'. createPoll (exampleDraft ''Movie night'') emptyState = (Inr p, s') \<and>
      p_title p = ''Movie night'' \<and> last (polls s') = p)"
proof -
  have h: "faults emptyState = []" by (simp add: emptyState_def)
  have t: "pd_title (exampleDraft ''Movie night'') = ''Movie night''"
    by (simp add: exampleDraft_def)
  from createPoll_no_validation[of emptyState "exampleDraft ''Movie night''"] h
  show ?thesis unfolding t by blast
qed

text \<open>
  Claim C3 as stated fails: a draft with an empty title is not rejected, a poll with an
  empty title is created.
\<close>

theorem createPoll_empty_title_counterexample:
  "pd_title (exampleDraft []) = [] \<and>
   fst (createPoll (exampleDraft []) emptyState) = Inr (pollFields (exampleDraft []) 1 1) \<and>
   polls (snd (createPoll (exampleDraft []) emptyState)) = [pollFields (exampleDraft []) 1 1] \<and>
   p_title (pollFields (exampleDraft []) 1 1) = [] \<and>
   p_active (pollFields (exampleDraft []) 1 1)"
  by (simp add: createPoll_def tryCatch_def andThen_def listDocuments_eq createPollDocument_eq
      nextFails_def afterCall_def runQueries_def emptyState_def exampleDraft_def pollFields_def)


lemma updateVoteDocument_eq:
  "updateVoteDocument i f s =
     (if nextFails s then (Inl (nextError s), afterCall s)
      else if i \<in> v_id ` set (votes s)
      then (Inr (), (afterCall s)\<lparr>votes := map (\<lambda>v. if v_id v = i then f v else v) (votes s)\<rparr>)
      else (Inl NotFound, afterCall s))"
  by (simp add: updateVoteDocument_def andThen_def storageCall_eq)

lemma createVoteDocument_eq:
  "createVoteDocument mk s =
     (if nextFails s then (Inl (nextError s), afterCall s)
      else (Inr (mk (nextId s) (clock s)),
            (afterCall s)\<lparr>votes := votes s @ [mk (nextId s) (clock s)],
               nextId := Suc (nextId s), clock := Suc (clock s)\<rparr>))"
  by (simp add: createVoteDocument_def andThen_def storageCall_eq)

lemma castVote_existing:
  assumes "castVote i u c s = (Inr (), s')" and "votesOf i u (votes s) = v # rest"
  shows "votes s' = map (\<lambda>d. if v_id d = v_id v then d\<lparr>v_choice := c\<rparr> else d) (votes s)"
proof -
  have listed: "runQueries [Equal (\<lambda>v. v_pollId v = i), Equal (\<lambda>v. v_userId v = u)] (votes s)
      = v # rest"
    using assms(2) by (simp add: runQueries_def matches_fun votesOf_def)
  show ?thesis
    using assms(1)
    by (auto simp: castVote_def tryCatch_def andThen_def listDocuments_eq listed reject_def
        updateVoteDocument_eq split: if_splits)
qed

lemma castVote_fresh:
  assumes "castVote i u c s = (Inr (), s')" and "votesOf i u (votes s) = []"
  shows "votes s' = votes s @
     [\<lparr>v_id = nextId s, v_pollId = i, v_userId = u, v_choice = c, v_createdAt = clock s\<rparr>]"
proof -
  have listed: "runQueries [Equal (\<lambda>v. v_pollId v = i), Equal (\<lambda>v. v_userId v = u)] (votes s)
      = []"
    using assms(2) by (simp add: runQueries_def matches_fun votesOf_def)
  show ?thesis
    using assms(1)
    by (auto simp: castVote_def tryCatch_def andThen_def listDocuments_eq listed reject_def
        createVoteDocument_eq resolve_def split: if_splits)
qed

lemma castVote_total:
  assumes "faults s = []"
  shows "\<exists>s'. castVote i u c s = (Inr (), s') \<and> faults s' = []"
proof -
  have nf: "\<not> nextFails s" "\<not> nextFails (afterCall s)" "faults (afterCall s) = []"
    using assms by (simp_all add: nextFails_def afterCall_def)
  let ?vs = "runQueries [Equal (\<lambda>v. v_pollId v = i), Equal (\<lambda>v. v_userId v = u)] (votes s)"
  show ?thesis
  proof (cases ?vs)
    case Nil
    then show ?thesis using nf
      by (simp add: castVote_def tryCatch_def andThen_def listDocuments_eq reject_def
          createVoteDocument_eq resolve_def)
  next
    case (Cons v rest)
    then have "v \<in> set ?vs" by simp
    then have "v \<in> set (votes s)" by (simp add: runQueries_def)
    then have "v_id v \<in> v_id ` set (votes s)" by simp
    with Cons show ?thesis using nf
      by (simp add: castVote_def tryCatch_def andThen_def listDocuments_eq reject_def
          updateVoteDocument_eq)
  qed
qed

text \<open>
  Claim C2. If a vote of the user on the poll exists, a completed \<^verbatim>\<open>castVote\<close> changes
  the choice of that vote and inserts nothing. Starting without such a vote, two
  completed calls in a row with the same choice leave exactly one vote of the user on the
  poll, and it carries that choice.
\<close>

theorem castVote_upsert:
  "(\<forall>v rest s'. votesOf i u (votes s) = v # rest \<longrightarrow> castVote i u c s = (Inr (), s') \<longrightarrow>
      votes s' = map (\<lambda>d. if v_id d = v_id v then d\<lparr>v_choice := c\<rparr> else d) (votes s) \<and>
      length (votes s') = length (votes s)) \<and>
   (\<forall>s1 s2. votesOf i u (votes s) = [] \<longrightarrow> castVote i u c s = (Inr (), s1) \<longrightarrow>
      castVote i u c s1 = (Inr (), s2) \<longrightarrow>
      (\<exists>v. votesOf i u (votes s2) = [v] \<and> v_choice v = c) \<and>
      length (votes s2) = Suc (length (votes s)))"
proof (intro conjI allI impI)
  fix v rest s'
  assume a: "votesOf i u (votes s) = v # rest" "castVote i u c s = (Inr (), s')"
  from castVote_existing[OF a(2,1)]
  show "votes s' = map (\<lambda>d. if v_id d = v_id v then d\<lparr>v_choice := c\<rparr> else d) (votes s)" .
  then show "length (votes s') = length (votes s)" by simp
next
  fix s1 s2
  assume none: "votesOf i u (votes s) = []"
    and first: "castVote i u c s = (Inr (), s1)" and second: "castVote i u c s1 = (Inr (), s2)"
  let ?new = "\<lparr>v_id = nextId s, v_pollId = i, v_userId = u, v_choice = c, v_createdAt = clock s\<rparr>"
  have v1: "votes s1 = votes s @ [?new]"
    by (rule castVote_fresh[OF first none])
  have of1: "votesOf i u (votes s1) = [?new]"
    using none by (simp add: v1 votesOf_def)
  have v2: "votes s2 = map (\<lambda>d. if v_id d = v_id ?new then d\<lparr>v_choice := c\<rparr> else d) (votes s1)"
    by (rule castVote_existing[OF second of1])
  have keep: "votesOf i u (map (\<lambda>d. if v_id d = nextId s then d\<lparr>v_choice := c\<rparr> else d) (votes s)) = []"
    using none by (auto simp: votesOf_def filter_empty_conv)
  have "votesOf i u (votes s2) = [?new]"
    using keep by (simp add: v2 v1 votesOf_def)
  then show "\<exists>v. votesOf i u (votes s2) = [v] \<and> v_choice v = c" by simp
  show "length (votes s2) = Suc (length (votes s))" by (simp add: v2 v1)
qed

text \<open>Witness for C2: voting join twice on a poll without votes.\<close>

theorem castVote_upsert_witness:
  "votesOf 2 ''u7'' (votes groupState) = [] \<and>
   (\<exists>s1 s2. castVote 2 ''u7'' Join groupState = (Inr (), s1) \<and>
      castVote 2 ''u7'' Join s1 = (Inr (), s2) \<and>
      (\<exists>v. votesOf 2 ''u7'' (votes s2) = [v] \<and> v_choice v = Join))"
proof -
  have none: "votesOf 2 ''u7'' (votes groupState) = []"
    by (simp add: groupState_def emptyState_def votesOf_def)
  have "faults groupState = []" by (simp add: groupState_def emptyState_def)
  from castVote_total[OF this] obtain s1 where
    first: "castVote 2 ''u7'' Join groupState = (Inr (), s1)" and f1: "faults s1 = []"
    by blast
  from castVote_total[OF f1] obtain s2 where
    second: "castVote 2 ''u7'' Join s1 = (Inr (), s2)"
    by blast
  from castVote_upsert[of 2 "''u7''" groupState Join] none first second
  have "\<exists>v. votesOf 2 ''u7'' (votes s2) = [v] \<and> v_choice v = Join" by blast
  with none first second show ?thesis by blast
qed







section \<open>The realtime subscriptions\<close>

text \<open>
  Claim C9, as amended. For a subscriber of group \<open>g\<close>, a message change and a poll change
  whose payload names another group leave the state of the page as it is. A vote change
  and a reaction change carry no group and are applied whatever group they come from: a
  created vote is appended, an updated vote replaces the vote with its identifier, and a
  created reaction is appended.
\<close>

theorem subscription_group_filter:
  "(\<forall>r. ch = MessageChange r \<longrightarrow> m_groupId (payload r) \<noteq> g \<longrightarrow> deliver g ch cs = cs) \<and>
   (\<forall>r. ch = PollChange r \<longrightarrow> p_groupId (payload r) \<noteq> g \<longrightarrow> deliver g ch cs = cs) \<and>
   (\<forall>r. ch = VoteChange r \<longrightarrow> g \<noteq> [] \<longrightarrow>
      deliver g ch cs =
        (if createEvent \<in> set (events r) then cs\<lparr>cs_votes := cs_votes cs @ [payload r]\<rparr>
         else if updateEvent \<in> set (events r)
         then cs\<lparr>cs_votes := map (\<lambda>v. if v_id v = v_id (payload r) then payload r else v)
                                  (cs_votes cs)\<rparr>
         else cs)) \<and>
   (\<forall>r. ch = ReactionChange r \<longrightarrow> g \<noteq> [] \<longrightarrow>
      deliver g ch cs =
        (if createEvent \<in> set (events r) then cs\<lparr>cs_reactions := cs_reactions cs @ [payload r]\<rparr>
         else cs))"
  by (simp add: deliver_def onMessageEvent_def onPollEvent_def onVoteEvent_def
      onReactionEvent_def)

text \<open>
  Witness for C9 as amended: a message of another group is dropped, a vote is appended.
\<close>

theorem subscription_group_filter_witness:
  "deliver ''g1''
     (MessageChange \<lparr>events = [createEvent],
        payload = \<lparr>m_id = 5, m_groupId = ''g2'', m_senderId = ''u2'', m_senderName = ''Ben'',
                   m_senderAvatar = [], m_text = PlainText ''hello'', m_pollId = None,
                   m_isSystemMessage = False, m_createdAt = 5\<rparr>\<rparr>) emptyChat = emptyChat \<and>
   cs_votes (deliver ''g1''
     (VoteChange \<lparr>events = [createEvent], payload = exampleVote 9 3 ''u5'' Join\<rparr>) emptyChat)
     = [exampleVote 9 3 ''u5'' Join]"
proof -
  have a: "''g2'' \<noteq> ''g1''" "''g1'' \<noteq> []" by simp_all
  show ?thesis
    using subscription_group_filter[of "MessageChange \<lparr>events = [createEvent],
        payload = \<lparr>m_id = 5, m_groupId = ''g2'', m_senderId = ''u2'', m_senderName = ''Ben'',
                   m_senderAvatar = [], m_text = PlainText ''hello'', m_pollId = None,
                   m_isSystemMessage = False, m_createdAt = 5\<rparr>\<rparr>" "''g1''" emptyChat]
      subscription_group_filter[of "VoteChange \<lparr>events = [createEvent],
        payload = exampleVote 9 3 ''u5'' Join\<rparr>" "''g1''" emptyChat]
    by (simp add: emptyChat_def)
qed

text \<open>
  Claim C9 as stated fails for votes: the page of group g1 applies the creation of a vote
  on a poll of group g2.
\<close>

theorem vote_event_other_group_counterexample:
  "changeGroup groupState
     (VoteChange \<lparr>events = [createEvent], payload = exampleVote 9 3 ''u5'' Join\<rparr>) = Some ''g2'' \<and>
   deliver ''g1''
     (VoteChange \<lparr>events = [createEvent], payload = exampleVote 9 3 ''u5'' Join\<rparr>) emptyChat
     = emptyChat\<lparr>cs_votes := [exampleVote 9 3 ''u5'' Join]\<rparr> \<and>
   deliver ''g1''
     (VoteChange \<lparr>events = [createEvent], payload = exampleVote 9 3 ''u5'' Join\<rparr>) emptyChat
     \<noteq> emptyChat"
  by (simp add: changeGroup_def groupState_def emptyState_def examplePoll_def exampleVote_def
      deliver_def onVoteEvent_def emptyChat_def)

section \<open>Locking a plan\<close>










lemma andThen_Inr: "m s = (Inr x, s1) \<Longrightarrow> andThen m f s = f x s1"
  by (simp add: andThen_def)

lemma andThen_Inl: "m s = (Inl e, s1) \<Longrightarrow> andThen m f s = (Inl e, s1)"
  by (simp add: andThen_def)












section \<open>The command interpreter replies\<close>



























end
